theory Spec2Isabelle
  imports Main "HOL-Library.Sublist"
begin

section \<open>Strings and the path module\<close>

text \<open>
  A JavaScript string is modelled as a \<^typ>\<open>string\<close>, one \<^typ>\<open>char\<close> per code unit
  (code units below 256).  The functions of this section are the string methods and the
  functions of the \<^verbatim>\<open>path\<close> module that \<^verbatim>\<open>lib/files/node.ts\<close> calls.
\<close>

text \<open>\<^verbatim>\<open>s.replace(/\/$/i, '')\<close>: without the \<^verbatim>\<open>m\<close> flag \<^verbatim>\<open>$\<close> holds at the end of
  the input only, so the one match there can be is the last character.\<close>

definition strip_ending_slash :: "string \<Rightarrow> string" where
  "strip_ending_slash s = (if s \<noteq> [] \<and> last s = CHR ''/'' then butlast s else s)"

text \<open>The characters that \<^verbatim>\<open>.\<close> does not match (line terminators below 256).\<close>

definition line_terminator :: "char \<Rightarrow> bool" where
  "line_terminator c = (c = CHR 0x0A \<or> c = CHR 0x0D)"

text \<open>\<^verbatim>\<open>r.replace(/^(.+)\/$/, '$1')\<close>: the pattern matches the whole string when it ends
  with a slash that at least one character precedes, none of them a line terminator; the
  replacement is the group, the string without that slash.\<close>

definition strip_root_slash :: "string \<Rightarrow> string" where
  "strip_root_slash r =
     (if r \<noteq> [] \<and> last r = CHR ''/'' \<and> butlast r \<noteq> [] \<and> list_all (\<lambda>c. \<not> line_terminator c) (butlast r)
      then butlast r else r)"

text \<open>\<^verbatim>\<open>s.indexOf(sub)\<close>: the index of the first occurrence, or -1.\<close>

fun indexOf :: "string \<Rightarrow> string \<Rightarrow> int" where
  "indexOf [] sub = (if sub = [] then 0 else -1)"
| "indexOf (c # cs) sub =
     (if prefix sub (c # cs) then 0
      else (let i = indexOf cs sub in if i < 0 then -1 else i + 1))"

text \<open>\<^verbatim>\<open>s.slice(k)\<close>: a negative start counts from the end, and the start is clamped to
  the string.\<close>

definition slice :: "string \<Rightarrow> int \<Rightarrow> string" where
  "slice s k = (if k < 0 then drop (nat (int (length s) + k)) s else drop (nat k) s)"

text \<open>\<^verbatim>\<open>s.includes(sub)\<close>.\<close>

definition includes' :: "string \<Rightarrow> string \<Rightarrow> bool" where
  "includes' s sub = (0 \<le> indexOf s sub)"

text \<open>
  \<^verbatim>\<open>dirname\<close> of the \<^verbatim>\<open>path\<close> module (POSIX flavour).  Its loop runs the index from
  the last character down to 1, remembers in \<^verbatim>\<open>matchedSlash\<close> whether only slashes have
  been seen so far, and stops at the first slash after a character that is none.
\<close>

fun dirname_loop :: "string \<Rightarrow> nat \<Rightarrow> bool \<Rightarrow> nat option" where
  "dirname_loop path 0 matchedSlash = None"
| "dirname_loop path (Suc i) matchedSlash =
     (if path ! Suc i = CHR ''/''
      then (if \<not> matchedSlash then Some (Suc i) else dirname_loop path i matchedSlash)
      else dirname_loop path i False)"

definition dirname :: "string \<Rightarrow> string" where
  "dirname path =
     (if path = [] then ''.''
      else
        (let hasRoot = (hd path = CHR ''/'') in
         case dirname_loop path (length path - 1) True of
           None \<Rightarrow> (if hasRoot then ''/'' else ''.'')
         | Some e \<Rightarrow> (if hasRoot \<and> e = 1 then ''//'' else take e path)))"

text \<open>Truthiness of a string, and \<^verbatim>\<open>x || null\<close> on the result of \<^verbatim>\<open>pop()\<close>
  (\<open>None\<close> stands for \<^verbatim>\<open>undefined\<close> on the left and for \<^verbatim>\<open>null\<close> on the right).\<close>

definition or_null :: "string option \<Rightarrow> string option" where
  "or_null x = (case x of None \<Rightarrow> None | Some s \<Rightarrow> (if s = [] then None else Some s))"

section \<open>Regular expressions\<close>

text \<open>
  A \<^verbatim>\<open>RegExp\<close> is modelled by what one match attempt at one index computes: given the
  input from that index on, the length of the match that starts there and its capture
  groups (\<open>None\<close> for a group that did not take part), or \<open>None\<close> when there is no
  match at that index.  Patterns whose match depends on the input before the index
  (anchors, look-behind, word boundaries) are outside this model.
\<close>

type_synonym regexp = "string \<Rightarrow> (nat \<times> string option list) option"

definition upper :: "char \<Rightarrow> char" where
  "upper c =
     (let k = (of_char c :: nat) in if 97 \<le> k \<and> k \<le> 122 then char_of (k - 32) else c)"

text \<open>A literal of the pattern under the \<^verbatim>\<open>i\<close> flag, at the head of the input:
  character by character, both sides canonicalised.\<close>

fun lit_ci :: "string \<Rightarrow> string \<Rightarrow> bool" where
  "lit_ci [] s = True"
| "lit_ci (p # ps) [] = False"
| "lit_ci (p # ps) (c # cs) = (upper p = upper c \<and> lit_ci ps cs)"

text \<open>A literal of a pattern without flags.\<close>

definition lit :: "string \<Rightarrow> regexp" where
  "lit p s = (if prefix p s then Some (length p, []) else None)"

text \<open>
  \<^verbatim>\<open>private _knownDavService = /(remote|public)\.php\/(web)?dav/i\<close>.  The two
  alternatives of group 1 exclude each other; group 2 is greedy, and when \<^verbatim>\<open>dav\<close>
  does not follow \<^verbatim>\<open>web\<close> the matcher backtracks to the empty option.
\<close>

definition defaultDavService :: regexp where
  "defaultDavService s =
     (if lit_ci ''remote'' s \<or> lit_ci ''public'' s then
        (let g1 = take 6 s; s1 = drop 6 s in
         if lit_ci ''.php/'' s1 then
           (let s2 = drop 5 s1 in
            if lit_ci ''web'' s2 \<and> lit_ci ''dav'' (drop 3 s2) then Some (17, [Some g1, Some (take 3 s2)])
            else if lit_ci ''dav'' s2 then Some (14, [Some g1, None])
            else None)
         else None)
      else None)"

text \<open>\<^verbatim>\<open>s.match(re)\<close> as a truth value: the first index at which the pattern matches
  exists.  The end of the input is an index too.\<close>

fun matches :: "regexp \<Rightarrow> string \<Rightarrow> bool" where
  "matches re [] = (re [] \<noteq> None)"
| "matches re (c # cs) = (re (c # cs) \<noteq> None \<or> matches re cs)"

text \<open>
  \<^verbatim>\<open>s.split(re)\<close>, the loop of \<^verbatim>\<open>RegExp.prototype[Symbol.split]\<close> without a limit:
  \<open>piece\<close> is the substring from \<^verbatim>\<open>p\<close> to \<^verbatim>\<open>q\<close>, \<open>rest\<close> the input from \<^verbatim>\<open>q\<close> on.
  A failed attempt and an empty match at \<^verbatim>\<open>p\<close> advance \<^verbatim>\<open>q\<close> by one; any other
  match pushes the piece and the captures and restarts behind the match.  The loop ends
  when \<^verbatim>\<open>q\<close> reaches the size, and the last piece is pushed.
\<close>

function split_loop :: "regexp \<Rightarrow> string \<Rightarrow> string \<Rightarrow> string option list" where
  "split_loop re piece rest =
     (if rest = [] then [Some piece]
      else
        (case re rest of
           None \<Rightarrow> split_loop re (piece @ [hd rest]) (tl rest)
         | Some (n, caps) \<Rightarrow>
             (if n = 0 \<and> piece = [] then split_loop re (piece @ [hd rest]) (tl rest)
              else Some piece # caps @ split_loop re [] (drop n rest))))"
  by pat_completeness auto
termination
  by (relation "measure (\<lambda>(re, piece, rest). 2 * length rest + (if piece = [] then 0 else 1))")
     (auto simp: neq_Nil_conv)

definition split :: "string \<Rightarrow> regexp \<Rightarrow> string option list" where
  "split s re =
     (if s = [] then (if re [] \<noteq> None then [] else [Some []])
      else split_loop re [] s)"

text \<open>\<^verbatim>\<open>a.pop()\<close> as a value: the last element, \<^verbatim>\<open>undefined\<close> for the empty array and for
  a group that did not take part.\<close>

definition pop :: "string option list \<Rightarrow> string option" where
  "pop a = (if a = [] then None else last a)"

section \<open>The data model\<close>

text \<open>A value of type \<^verbatim>\<open>any\<close>, as the attribute mapping holds and \<^verbatim>\<open>owner\<close> may be.\<close>

datatype jsval = Undefined | Null | Bool bool | Number int | String string

datatype NodeStatus = NEW | FAILED | LOADING | LOCKED

datatype FileType = File | Folder

text \<open>
  Modelled from the spec: the enumeration \<^verbatim>\<open>Permission\<close> of \<^verbatim>\<open>lib/permissions.ts\<close>,
  which is not among the sources.  Section 3 gives the bit flags.
\<close>

definition Permission_NONE :: int where "Permission_NONE = 0"
definition Permission_READ :: int where "Permission_READ = 1"
definition Permission_UPDATE :: int where "Permission_UPDATE = 2"
definition Permission_CREATE :: int where "Permission_CREATE = 4"
definition Permission_DELETE :: int where "Permission_DELETE = 8"
definition Permission_SHARE :: int where "Permission_SHARE = 16"
definition Permission_ALL :: int where "Permission_ALL = 31"

text \<open>A \<^verbatim>\<open>Date\<close> is its time value.\<close>

type_synonym date = nat

text \<open>
  Modelled from the spec: the interface \<^verbatim>\<open>NodeData\<close> of \<^verbatim>\<open>lib/files/nodeData.ts\<close>,
  which is not among the sources; Section 3 lists its fields.  An optional field is an
  \<open>option\<close>, \<open>None\<close> when it is absent or \<^verbatim>\<open>undefined\<close>.  A number is modelled by
  an integer.  The fields carry the types the interface declares, except \<open>owner\<close>, which
  keeps any value.
\<close>

record NodeData =
  source :: string
  id' :: "int option"
  mtime :: "date option"
  crtime :: "date option"
  mime :: "string option"
  size' :: "int option"
  permissions :: "int option"
  owner :: jsval
  root :: "string option"
  attributes :: "(string \<rightharpoonup> jsval) option"
  status :: "NodeStatus option"

text \<open>
  The class \<^verbatim>\<open>Node\<close>: its three private fields, and the \<^verbatim>\<open>type\<close> that the subclasses
  \<^verbatim>\<open>File\<close> and \<^verbatim>\<open>Folder\<close> fix.
\<close>

record Node =
  data :: NodeData
  attributes' :: "string \<rightharpoonup> jsval"
  knownDavService :: regexp
  type' :: FileType

section \<open>The getters of Node\<close>

text \<open>
  Modelled from the spec: \<^verbatim>\<open>isDavRessource\<close> of \<^verbatim>\<open>lib/files/nodeData.ts\<close>, which is not
  among the sources: true iff the source matches the DAV-service regular expression.
\<close>

definition isDavRessource :: "string \<Rightarrow> regexp \<Rightarrow> bool" where
  "isDavRessource src davService = matches davService src"

definition Node_source :: "Node \<Rightarrow> string" where
  "Node_source n = strip_ending_slash (source (data n))"

definition Node_isDavRessource :: "Node \<Rightarrow> bool" where
  "Node_isDavRessource n = isDavRessource (Node_source n) (knownDavService n)"

definition Node_owner :: "Node \<Rightarrow> jsval" where
  "Node_owner n = (if \<not> Node_isDavRessource n then Null else owner (data n))"

definition Node_permissions :: "Node \<Rightarrow> int" where
  "Node_permissions n =
     (if Node_owner n = Null \<and> \<not> Node_isDavRessource n then Permission_READ
      else (case permissions (data n) of Some p \<Rightarrow> p | None \<Rightarrow> Permission_NONE))"

text \<open>The second branch of the getter \<^verbatim>\<open>root\<close>.\<close>

definition root_from_service :: "Node \<Rightarrow> string option" where
  "root_from_service n =
     (if Node_isDavRessource n
      then (let root = dirname (Node_source n) in or_null (pop (split root (knownDavService n))))
      else None)"

text \<open>The getter \<^verbatim>\<open>root\<close>; \<open>None\<close> is \<^verbatim>\<open>null\<close>.  The empty string is falsy.\<close>

definition Node_root :: "Node \<Rightarrow> string option" where
  "Node_root n =
     (case root (data n) of
        Some r \<Rightarrow> (if r \<noteq> [] then Some (strip_root_slash r) else root_from_service n)
      | None \<Rightarrow> root_from_service n)"

text \<open>The getter \<^verbatim>\<open>fileid\<close>: \<^verbatim>\<open>this._data?.id || this.attributes?.fileid\<close>.  A number is
  falsy when it is 0.\<close>

definition Node_fileid :: "Node \<Rightarrow> jsval" where
  "Node_fileid n =
     (let fallback = (case attributes' n ''fileid'' of Some v \<Rightarrow> v | None \<Rightarrow> Undefined) in
      case id' (data n) of
        Some i \<Rightarrow> (if i \<noteq> 0 then Number i else fallback)
      | None \<Rightarrow> fallback)"

section \<open>URLs\<close>

text \<open>
  The platform class \<^verbatim>\<open>URL\<close>, which \<^verbatim>\<open>lib/files/node.ts\<close> calls in its getter
  \<^verbatim>\<open>dirname\<close>: \<^verbatim>\<open>new URL(s)\<close> without a base, after the basic URL parser of the
  URL Standard (WHATWG, its text of 2025), as far as it decides whether the call throws
  and what \<^verbatim>\<open>protocol\<close> and \<^verbatim>\<open>pathname\<close> read.  The states of the parser are the
  functions of this section; the user name, the password, the port, the query and the
  fragment are parsed and dropped.

  One step of the standard is outside the model: a host of a special scheme with a
  character outside ASCII (after percent-decoding) or with a label that starts with
  \<^verbatim>\<open>xn--\<close> goes through the Unicode tables of IDNA.  The model takes every such host
  as valid, so there it may accept a source that the platform refuses, and never the
  reverse; \<^verbatim>\<open>protocol\<close> and \<^verbatim>\<open>pathname\<close> do not depend on the host.
\<close>

record URL =
  protocol :: string
  pathname :: string

definition is_alpha :: "char \<Rightarrow> bool" where
  "is_alpha c = (let k = (of_char c :: nat) in (65 \<le> k \<and> k \<le> 90) \<or> (97 \<le> k \<and> k \<le> 122))"

definition is_digit :: "char \<Rightarrow> bool" where
  "is_digit c = (let k = (of_char c :: nat) in 48 \<le> k \<and> k \<le> 57)"

definition is_hex :: "char \<Rightarrow> bool" where
  "is_hex c =
     (let k = (of_char c :: nat) in
      (48 \<le> k \<and> k \<le> 57) \<or> (65 \<le> k \<and> k \<le> 70) \<or> (97 \<le> k \<and> k \<le> 102))"

definition lower :: "char \<Rightarrow> char" where
  "lower c =
     (let k = (of_char c :: nat) in if 65 \<le> k \<and> k \<le> 90 then char_of (k + 32) else c)"

text \<open>The value of a hexadecimal digit, and of a string of digits in the radix \<open>R\<close>.\<close>

definition digit_val :: "char \<Rightarrow> nat" where
  "digit_val c =
     (let k = (of_char c :: nat) in
      if k \<le> 57 then k - 48 else if k \<le> 70 then k - 55 else k - 87)"

definition number :: "nat \<Rightarrow> string \<Rightarrow> nat" where
  "number R s = foldl (\<lambda>a c. a * R + digit_val c) 0 s"

text \<open>The parser first removes the leading and trailing C0 controls and spaces of its
  input, then every tab and newline.\<close>

definition c0_control_or_space :: "char \<Rightarrow> bool" where
  "c0_control_or_space c = ((of_char c :: nat) \<le> 32)"

definition tab_or_newline :: "char \<Rightarrow> bool" where
  "tab_or_newline c = (c = CHR 0x09 \<or> c = CHR 0x0A \<or> c = CHR 0x0D)"

definition scrub :: "string \<Rightarrow> string" where
  "scrub input =
     filter (\<lambda>c. \<not> tab_or_newline c)
       (rev (dropWhile c0_control_or_space (rev (dropWhile c0_control_or_space input))))"

definition scheme_char :: "char \<Rightarrow> bool" where
  "scheme_char c =
     (is_alpha c \<or> is_digit c \<or> c = CHR ''+'' \<or> c = CHR ''-'' \<or> c = CHR ''.'')"

definition special :: "string \<Rightarrow> bool" where
  "special scheme =
     (scheme = ''ftp'' \<or> scheme = ''file'' \<or> scheme = ''http'' \<or> scheme = ''https'' \<or>
      scheme = ''ws'' \<or> scheme = ''wss'')"

text \<open>
  Percent-encoding.  A character from 128 on is a code point of two UTF-8 bytes, and is
  in every percent-encode set; the sets are given by their members below 128.
\<close>

definition hex_digit :: "nat \<Rightarrow> char" where
  "hex_digit k = (if k < 10 then char_of (48 + k) else char_of (55 + k))"

definition percent_encode_byte :: "nat \<Rightarrow> string" where
  "percent_encode_byte b = [CHR ''%'', hex_digit (b div 16), hex_digit (b mod 16)]"

definition c0_control_set :: "char \<Rightarrow> bool" where
  "c0_control_set c = (let k = (of_char c :: nat) in k \<le> 31 \<or> 126 < k)"

definition query_set :: "char \<Rightarrow> bool" where
  "query_set c =
     (c0_control_set c \<or> c = CHR '' '' \<or> c = CHR 0x22 \<or> c = CHR ''#'' \<or> c = CHR ''<'' \<or>
      c = CHR ''>'')"

definition path_set :: "char \<Rightarrow> bool" where
  "path_set c =
     (query_set c \<or> c = CHR ''?'' \<or> c = CHR ''^'' \<or> c = CHR 0x60 \<or> c = CHR ''{'' \<or>
      c = CHR ''}'')"

definition utf8_percent_encode :: "(char \<Rightarrow> bool) \<Rightarrow> char \<Rightarrow> string" where
  "utf8_percent_encode encode_set c =
     (let k = (of_char c :: nat) in
      if k < 128 then (if encode_set c then percent_encode_byte k else [c])
      else percent_encode_byte (192 + k div 64) @ percent_encode_byte (128 + k mod 64))"

fun percent_decode :: "string \<Rightarrow> string" where
  "percent_decode (c # h # l # cs) =
     (if c = CHR ''%'' \<and> is_hex h \<and> is_hex l
      then char_of (16 * digit_val h + digit_val l) # percent_decode cs
      else c # percent_decode (h # l # cs))"
| "percent_decode cs = cs"

text \<open>To split strictly on a delimiter: the result has one more item than the input has
  delimiters.\<close>

fun split_on :: "char \<Rightarrow> string \<Rightarrow> string list" where
  "split_on d [] = [[]]"
| "split_on d (c # cs) =
     (let r = split_on d cs in if c = d then [] # r else (c # hd r) # tl r)"

subsection \<open>The host parser\<close>

definition forbidden_host_code_point :: "char \<Rightarrow> bool" where
  "forbidden_host_code_point c =
     (c = CHR 0x00 \<or> c = CHR 0x09 \<or> c = CHR 0x0A \<or> c = CHR 0x0D \<or> c = CHR '' '' \<or>
      c = CHR ''#'' \<or> c = CHR ''/'' \<or> c = CHR '':'' \<or> c = CHR ''<'' \<or> c = CHR ''>'' \<or>
      c = CHR ''?'' \<or> c = CHR ''@'' \<or> c = CHR ''['' \<or> c = CHR 0x5C \<or> c = CHR '']'' \<or>
      c = CHR ''^'' \<or> c = CHR ''|'')"

definition forbidden_domain_code_point :: "char \<Rightarrow> bool" where
  "forbidden_domain_code_point c =
     (forbidden_host_code_point c \<or> (of_char c :: nat) \<le> 31 \<or> c = CHR ''%'' \<or> c = CHR 0x7F)"

text \<open>The IPv4 number parser: hexadecimal behind \<^verbatim>\<open>0x\<close>, octal behind \<^verbatim>\<open>0\<close>, decimal
  otherwise; \<open>None\<close> is failure.\<close>

definition ipv4_number :: "string \<Rightarrow> nat option" where
  "ipv4_number part =
     (if part = [] then None
      else
        (let hex = (2 \<le> length part \<and> hd part = CHR ''0'' \<and> lower (part ! 1) = CHR ''x'');
             oct = (\<not> hex \<and> 2 \<le> length part \<and> hd part = CHR ''0'');
             R = (if hex then 16 else if oct then 8 else 10);
             digits = (if hex then drop 2 part else if oct then tl part else part)
         in if list_all (\<lambda>c. is_hex c \<and> digit_val c < R) digits then Some (number R digits)
            else None))"

definition ends_in_a_number :: "string \<Rightarrow> bool" where
  "ends_in_a_number domain =
     (let parts = split_on CHR ''.'' domain;
          parts = (if last parts = [] then butlast parts else parts)
      in parts \<noteq> [] \<and>
         ((last parts \<noteq> [] \<and> list_all is_digit (last parts)) \<or> ipv4_number (last parts) \<noteq> None))"

text \<open>The IPv4 parser, as far as it fails or not.\<close>

definition ipv4 :: "string \<Rightarrow> bool" where
  "ipv4 domain =
     (let parts = split_on CHR ''.'' domain;
          parts = (if last parts = [] \<and> 1 < length parts then butlast parts else parts);
          numbers = map (\<lambda>p. case ipv4_number p of Some k \<Rightarrow> k | None \<Rightarrow> 0) parts
      in length parts \<le> 4 \<and> list_all (\<lambda>p. ipv4_number p \<noteq> None) parts \<and>
         list_all (\<lambda>k. k \<le> 255) (butlast numbers) \<and> last numbers < 256 ^ (5 - length numbers))"

text \<open>
  The IPv6 parser, as far as it fails or not.  \<open>ipv6_pieces\<close> is its main loop at one
  piece: \<open>compress\<close> says whether \<^verbatim>\<open>::\<close> has been seen.  A piece is up to four
  hexadecimal digits; a dot behind them starts the four decimal numbers of an IPv4
  address, which fill two pieces and end the input.
\<close>

definition ipv4_in_ipv6 :: "string \<Rightarrow> bool" where
  "ipv4_in_ipv6 s =
     (let parts = split_on CHR ''.'' s in
      length parts = 4 \<and>
      list_all (\<lambda>p. p \<noteq> [] \<and> list_all is_digit p \<and> (length p = 1 \<or> hd p \<noteq> CHR ''0'') \<and>
                    number 10 p \<le> 255) parts)"

function ipv6_pieces :: "nat \<Rightarrow> bool \<Rightarrow> string \<Rightarrow> bool" where
  "ipv6_pieces pieceIndex compress s =
     (if s = [] then compress \<or> pieceIndex = 8
      else if pieceIndex = 8 then False
      else if hd s = CHR '':'' then \<not> compress \<and> ipv6_pieces (pieceIndex + 1) True (tl s)
      else
        (let len = length (takeWhile is_hex (take 4 s)); rest = drop len s in
         if rest = [] then compress \<or> pieceIndex + 1 = 8
         else if hd rest = CHR ''.''
           then 0 < len \<and> pieceIndex \<le> 6 \<and> ipv4_in_ipv6 s \<and> (compress \<or> pieceIndex + 2 = 8)
         else if hd rest = CHR '':''
           then tl rest \<noteq> [] \<and> ipv6_pieces (pieceIndex + 1) compress (tl rest)
         else False))"
  by pat_completeness auto
termination
  by (relation "measure (\<lambda>(i, c, s). length s)") (auto simp: neq_Nil_conv)

definition ipv6 :: "string \<Rightarrow> bool" where
  "ipv6 s =
     (if s \<noteq> [] \<and> hd s = CHR '':''
      then tl s \<noteq> [] \<and> hd (tl s) = CHR '':'' \<and> ipv6_pieces 1 True (tl (tl s))
      else ipv6_pieces 0 False s)"

text \<open>
  The host parser, as far as it fails or not: an IPv6 address in brackets; an opaque host
  (of a scheme that is not special) without forbidden host code points; or a domain,
  percent-decoded and lower-cased, not empty, without forbidden domain code points, and an
  IPv4 address when it ends in a number.  A domain outside ASCII, or with a label
  \<^verbatim>\<open>xn--\<close>, is the one that the model takes as valid without the tables of IDNA.
\<close>

definition parse_host :: "bool \<Rightarrow> string \<Rightarrow> bool" where
  "parse_host isOpaque input =
     (if input \<noteq> [] \<and> hd input = CHR ''[''
      then last input = CHR '']'' \<and> ipv6 (butlast (tl input))
      else if isOpaque then \<not> list_ex forbidden_host_code_point input
      else
        (let domain = map lower (percent_decode input) in
         if list_ex (\<lambda>c. 128 \<le> (of_char c :: nat)) domain \<or>
            list_ex (lit_ci ''xn--'') (split_on CHR ''.'' domain)
         then True
         else domain \<noteq> [] \<and> \<not> list_ex forbidden_domain_code_point domain \<and>
              (ends_in_a_number domain \<longrightarrow> ipv4 domain)))"

subsection \<open>The states of the parser\<close>

text \<open>The host state and the port state: the host ends at the first colon outside
  brackets, and what follows the colon is the port.\<close>

fun split_host :: "bool \<Rightarrow> string \<Rightarrow> string \<times> string option" where
  "split_host insideBrackets [] = ([], None)"
| "split_host insideBrackets (c # cs) =
     (if c = CHR '':'' \<and> \<not> insideBrackets then ([], Some cs)
      else
        (let r = split_host (if c = CHR ''['' then True else if c = CHR '']'' then False
                             else insideBrackets) cs
         in (c # fst r, snd r)))"

definition port_ok :: "string \<Rightarrow> bool" where
  "port_ok buffer = (list_all is_digit buffer \<and> number 10 buffer \<le> 65535)"

definition authority_end :: "bool \<Rightarrow> char \<Rightarrow> bool" where
  "authority_end isSpecial c =
     (c = CHR ''/'' \<or> c = CHR ''?'' \<or> c = CHR ''#'' \<or> (isSpecial \<and> c = CHR 0x5C))"

text \<open>
  The authority state with the host state and the port state: the authority ends at the
  first \<^verbatim>\<open>/\<close>, \<^verbatim>\<open>?\<close> or \<^verbatim>\<open>#\<close> (or backslash, in a special scheme), the credentials
  end at its last \<^verbatim>\<open>@\<close>.  The result is the input from the end of the authority on,
  or \<open>None\<close> for failure.
\<close>

definition authority_state :: "bool \<Rightarrow> string \<Rightarrow> string option" where
  "authority_state isSpecial s =
     (let authority = takeWhile (\<lambda>c. \<not> authority_end isSpecial c) s;
          remaining = dropWhile (\<lambda>c. \<not> authority_end isSpecial c) s;
          buffer = rev (takeWhile (\<lambda>c. c \<noteq> CHR ''@'') (rev authority))
      in if CHR ''@'' \<in> set authority \<and> buffer = [] then None
         else
           (case split_host False buffer of
              (host, Some port) \<Rightarrow>
                if host \<noteq> [] \<and> parse_host (\<not> isSpecial) host \<and> port_ok port then Some remaining
                else None
            | (host, None) \<Rightarrow>
                if (isSpecial \<longrightarrow> host \<noteq> []) \<and> parse_host (\<not> isSpecial) host then Some remaining
                else None))"

definition single_dot :: "string \<Rightarrow> bool" where
  "single_dot buffer = (map lower buffer = ''.'' \<or> map lower buffer = ''%2e'')"

definition double_dot :: "string \<Rightarrow> bool" where
  "double_dot buffer =
     (map lower buffer = ''..'' \<or> map lower buffer = ''.%2e'' \<or> map lower buffer = ''%2e.'' \<or>
      map lower buffer = ''%2e%2e'')"

definition windows_drive_letter :: "string \<Rightarrow> bool" where
  "windows_drive_letter buffer =
     (length buffer = 2 \<and> is_alpha (hd buffer) \<and> (buffer ! 1 = CHR '':'' \<or> buffer ! 1 = CHR ''|''))"

text \<open>To shorten a path: the last segment goes, except the drive letter of a file URL.\<close>

definition shorten :: "string \<Rightarrow> string list \<Rightarrow> string list" where
  "shorten scheme path =
     (if scheme = ''file'' \<and> length path = 1 \<and> windows_drive_letter (hd path) \<and>
         hd path ! 1 = CHR '':''
      then path else butlast path)"

text \<open>
  The path state at the end of a segment, \<open>slash\<close> saying whether a slash ends it: a
  double-dot segment shortens the path, a single-dot segment is dropped, and both leave
  an empty last segment when no slash follows.
\<close>

definition end_segment :: "string \<Rightarrow> string list \<Rightarrow> string \<Rightarrow> bool \<Rightarrow> string list" where
  "end_segment scheme path buffer slash =
     (if double_dot buffer
      then (if slash then shorten scheme path else shorten scheme path @ [[]])
      else if single_dot buffer then (if slash then path else path @ [[]])
      else path @ [if scheme = ''file'' \<and> path = [] \<and> windows_drive_letter buffer
                   then [hd buffer, CHR '':''] else buffer])"

text \<open>The path state: it ends at \<^verbatim>\<open>?\<close>, at \<^verbatim>\<open>#\<close> or with the input.\<close>

fun path_state :: "string \<Rightarrow> string list \<Rightarrow> string \<Rightarrow> string \<Rightarrow> string list" where
  "path_state scheme path buffer [] = end_segment scheme path buffer False"
| "path_state scheme path buffer (c # cs) =
     (if c = CHR ''?'' \<or> c = CHR ''#'' then end_segment scheme path buffer False
      else if c = CHR ''/'' \<or> (special scheme \<and> c = CHR 0x5C)
        then path_state scheme (end_segment scheme path buffer True) [] cs
      else path_state scheme path (buffer @ utf8_percent_encode path_set c) cs)"

definition path_start_state :: "string \<Rightarrow> string \<Rightarrow> string list" where
  "path_start_state scheme s =
     (if special scheme
      then path_state scheme [] []
             (if s \<noteq> [] \<and> (hd s = CHR ''/'' \<or> hd s = CHR 0x5C) then tl s else s)
      else if s = [] \<or> hd s = CHR ''?'' \<or> hd s = CHR ''#'' then []
      else path_state scheme [] [] (if hd s = CHR ''/'' then tl s else s))"

text \<open>The path serializer, which the getter \<^verbatim>\<open>pathname\<close> returns for a path of
  segments.\<close>

definition serialize_path :: "string list \<Rightarrow> string" where
  "serialize_path path = concat (map (\<lambda>segment. CHR ''/'' # segment) path)"

text \<open>The opaque path state: the path up to \<^verbatim>\<open>?\<close> or \<^verbatim>\<open>#\<close>; a space right before
  one of them is encoded.\<close>

definition opaque_path_state :: "string \<Rightarrow> string" where
  "opaque_path_state s =
     (let p = takeWhile (\<lambda>c. c \<noteq> CHR ''?'' \<and> c \<noteq> CHR ''#'') s in
      if length p < length s \<and> p \<noteq> [] \<and> last p = CHR '' ''
      then concat (map (utf8_percent_encode c0_control_set) (butlast p)) @ ''%20''
      else concat (map (utf8_percent_encode c0_control_set) p))"

definition slash :: "char \<Rightarrow> bool" where
  "slash c = (c = CHR ''/'' \<or> c = CHR 0x5C)"

text \<open>
  The file state, the file slash state and the file host state, without a base: behind
  two slashes comes a host, unless it reads as a drive letter, which begins the path.
\<close>

definition file_state :: "string \<Rightarrow> string list option" where
  "file_state s =
     (if s \<noteq> [] \<and> slash (hd s) then
        (if tl s \<noteq> [] \<and> slash (hd (tl s)) then
           (let buffer = takeWhile (\<lambda>c. \<not> authority_end True c) (tl (tl s));
                remaining = dropWhile (\<lambda>c. \<not> authority_end True c) (tl (tl s))
            in if windows_drive_letter buffer then Some (path_state ''file'' [] buffer remaining)
               else if buffer = [] \<or> parse_host False buffer
                 then Some (path_start_state ''file'' remaining)
               else None)
         else Some (path_state ''file'' [] [] (tl s)))
      else Some (path_state ''file'' [] [] s))"

text \<open>
  \<^verbatim>\<open>new URL(s)\<close>, \<open>None\<close> when it throws.  The scheme start state and the scheme
  state read the scheme up to the colon; without a scheme there is no URL, for want of a
  base.  A special scheme skips every slash and backslash before its authority; another
  scheme has an authority behind two slashes, a path behind one, and an opaque path
  otherwise.
\<close>

definition parseURL :: "string \<Rightarrow> URL option" where
  "parseURL input =
     (let s = scrub input in
      if s = [] \<or> \<not> is_alpha (hd s) then None
      else
        (let scheme = map lower (takeWhile scheme_char s); rest = dropWhile scheme_char s in
         if rest = [] \<or> hd rest \<noteq> CHR '':'' then None
         else
           (let remaining = tl rest;
                path =
                  (if scheme = ''file'' then map_option serialize_path (file_state remaining)
                   else if special scheme then
                     map_option (\<lambda>r. serialize_path (path_start_state scheme r))
                       (authority_state True (dropWhile slash remaining))
                   else if remaining \<noteq> [] \<and> hd remaining = CHR ''/'' then
                     (if tl remaining \<noteq> [] \<and> hd (tl remaining) = CHR ''/''
                      then map_option (\<lambda>r. serialize_path (path_start_state scheme r))
                             (authority_state False (tl (tl remaining)))
                      else Some (serialize_path (path_state scheme [] [] (tl remaining))))
                   else Some (opaque_path_state remaining))
            in map_option (\<lambda>p. \<lparr>protocol = scheme @ '':'', pathname = p\<rparr>) path)))"

section \<open>The getters dirname and path\<close>

datatype error =
    InvalidURL                \<comment> \<open>the \<^verbatim>\<open>TypeError\<close> of \<^verbatim>\<open>new URL\<close>\<close>
  | InvalidSourceFormat       \<comment> \<open>\<^verbatim>\<open>Invalid source format, source must be a valid URL\<close>\<close>
  | OnlyHttpSupported         \<comment> \<open>\<^verbatim>\<open>Invalid source format, only http(s) is supported\<close>\<close>
  | InvalidId                 \<comment> \<open>\<^verbatim>\<open>Invalid id type of value\<close>\<close>
  | InvalidMime               \<comment> \<open>\<^verbatim>\<open>Missing or invalid mandatory mime\<close>\<close>
  | InvalidPermissions        \<comment> \<open>\<^verbatim>\<open>Invalid permissions\<close>\<close>
  | InvalidOwner              \<comment> \<open>\<^verbatim>\<open>Invalid owner\<close>\<close>
  | RootLeadingSlash          \<comment> \<open>\<^verbatim>\<open>Root must start with a leading slash\<close>\<close>
  | RootNotPartOfSource       \<comment> \<open>\<^verbatim>\<open>Root must be part of the source\<close>\<close>
  | RootNotRelative           \<comment> \<open>\<^verbatim>\<open>The root must be relative to the service. e.g /files/emma\<close>\<close>
  | InvalidBasename           \<comment> \<open>\<^verbatim>\<open>Invalid basename\<close>\<close>

text \<open>\<^verbatim>\<open>basename\<close> of the \<^verbatim>\<open>path\<close> module without an extension argument: the last
  component, trailing slashes set aside.\<close>

definition basename :: "string \<Rightarrow> string" where
  "basename path =
     rev (takeWhile (\<lambda>c. c \<noteq> CHR ''/'') (dropWhile (\<lambda>c. c = CHR ''/'') (rev path)))"

text \<open>\<^verbatim>\<open>s.replace(/\/\//g, '/')\<close>: every pair of slashes, from the left, without
  overlap.\<close>

fun replace_double_slash :: "string \<Rightarrow> string" where
  "replace_double_slash (a # b # cs) =
     (if a = CHR ''/'' \<and> b = CHR ''/'' then CHR ''/'' # replace_double_slash cs
      else a # replace_double_slash (b # cs))"
| "replace_double_slash cs = cs"

text \<open>What both getters compute when \<^verbatim>\<open>this.root\<close> is truthy:
  \<^verbatim>\<open>this.source.slice(firstMatch + this.root.length) || '/'\<close>.\<close>

definition after_root :: "Node \<Rightarrow> string \<Rightarrow> string" where
  "after_root n r =
     (let firstMatch = indexOf (Node_source n) r;
          rest = slice (Node_source n) (firstMatch + int (length r))
      in if rest \<noteq> [] then rest else ''/'')"

definition root_truthy :: "Node \<Rightarrow> string option" where
  "root_truthy n = (case Node_root n of Some r \<Rightarrow> (if r \<noteq> [] then Some r else None) | None \<Rightarrow> None)"

definition Node_dirname :: "Node \<Rightarrow> error + string" where
  "Node_dirname n =
     (case root_truthy n of
        Some r \<Rightarrow> Inr (dirname (after_root n r))
      | None \<Rightarrow>
          (case parseURL (Node_source n) of
             None \<Rightarrow> Inl InvalidURL
           | Some url \<Rightarrow> Inr (dirname (pathname url))))"

definition Node_basename :: "Node \<Rightarrow> string" where
  "Node_basename n = basename (Node_source n)"

definition Node_path :: "Node \<Rightarrow> error + string" where
  "Node_path n =
     (case root_truthy n of
        Some r \<Rightarrow> Inr (after_root n r)
      | None \<Rightarrow>
          (case Node_dirname n of
             Inl e \<Rightarrow> Inl e
           | Inr d \<Rightarrow> Inr (replace_double_slash (d @ ''/'' @ Node_basename n))))"

section \<open>The validator\<close>

text \<open>The input behind the first match of a pattern, if there is a match.\<close>

fun behind_first_match :: "regexp \<Rightarrow> string \<Rightarrow> string option" where
  "behind_first_match re [] = (case re [] of Some (n, caps) \<Rightarrow> Some [] | None \<Rightarrow> None)"
| "behind_first_match re (c # cs) =
     (case re (c # cs) of
        Some (n, caps) \<Rightarrow> Some (drop n (c # cs))
      | None \<Rightarrow> behind_first_match re cs)"

definition is_word_char :: "char \<Rightarrow> bool" where
  "is_word_char c = (is_alpha c \<or> is_digit c \<or> c = CHR ''_'')"

text \<open>Modelled from the spec: the check of the mime in \<^verbatim>\<open>validateData\<close>, a mime of the
  shape \<^verbatim>\<open>word/word\<close> (Section 4.1).\<close>

definition mime_ok :: "string \<Rightarrow> bool" where
  "mime_ok m =
     (let t = takeWhile (\<lambda>c. c \<noteq> CHR ''/'') m; sub = drop (length t + 1) m in
      t \<noteq> [] \<and> length t < length m \<and> sub \<noteq> [] \<and> list_all is_word_char t \<and> list_all is_word_char sub)"

text \<open>
  Modelled from the spec: \<^verbatim>\<open>validateData\<close> of \<^verbatim>\<open>lib/files/nodeData.ts\<close>, which is not
  among the sources.  The checks are those of Section 4.1, in the order of its list, and the
  first one that fails gives the error (Section 7); \<open>None\<close> says that the bag is valid.
  The checks on the type of a field (\<^verbatim>\<open>Invalid mtime type\<close>, \<^verbatim>\<open>Invalid size type\<close> and
  the like) have no branch, since the fields of \<^typ>\<open>NodeData\<close> carry their types; the one
  on \<open>owner\<close> has.  An id is valid when it is an integer that is not negative, as
  Section 4.1 has it and the test \<^verbatim>\<open>Invalid id\<close> of \<^verbatim>\<open>__tests__/files/node.spec.ts\<close>
  expects; the test \<^verbatim>\<open>FileId negative fallback\<close> of a second test file constructs a file
  with the id -1234, so no property below rests on the check of a negative id.  The mime
  is mandatory for a \<^verbatim>\<open>File\<close> only, so the validator takes the type of the node.  The
  last check on the root is read by its purpose, "ensuring root begins exactly where the
  DAV-service-relative segment begins": behind the service token of a DAV source, the
  source goes on with the root.
\<close>

definition validateData :: "FileType \<Rightarrow> NodeData \<Rightarrow> regexp \<Rightarrow> error option" where
  "validateData t d davService =
     (case parseURL (source d) of
        None \<Rightarrow> Some InvalidSourceFormat
      | Some url \<Rightarrow>
          if protocol url \<noteq> ''http:'' \<and> protocol url \<noteq> ''https:'' then Some OnlyHttpSupported
          else if (case id' d of Some i \<Rightarrow> i < 0 | None \<Rightarrow> False) then Some InvalidId
          else if t = File \<and> (case mime d of Some m \<Rightarrow> \<not> mime_ok m | None \<Rightarrow> True)
            then Some InvalidMime
          else if (case permissions d of Some p \<Rightarrow> and p (not Permission_ALL) \<noteq> 0 | None \<Rightarrow> False)
            then Some InvalidPermissions
          else if (case owner d of Undefined \<Rightarrow> False | Null \<Rightarrow> False | String w \<Rightarrow> False | _ \<Rightarrow> True)
            then Some InvalidOwner
          else
            (case root d of
               None \<Rightarrow> None
             | Some r \<Rightarrow>
                 if \<not> prefix ''/'' r then Some RootLeadingSlash
                 else if \<not> includes' (pathname url) r then Some RootNotPartOfSource
                 else if (case behind_first_match davService (source d) of
                            Some rest \<Rightarrow> \<not> prefix r rest
                          | None \<Rightarrow> False)
                   then Some RootNotRelative
                 else None))"

section \<open>Construction and mutation\<close>

text \<open>
  The constructor of \<^verbatim>\<open>Node\<close>: it validates the bag against the custom pattern, or the
  known one, keeps the bag, moves the attributes out of it, and keeps the custom pattern.
  \<open>Inl\<close> is the error thrown.
\<close>

definition new_Node :: "FileType \<Rightarrow> NodeData \<Rightarrow> regexp option \<Rightarrow> error + Node" where
  "new_Node t d davService =
     (let re = (case davService of Some custom \<Rightarrow> custom | None \<Rightarrow> defaultDavService) in
      case validateData t d re of
        Some e \<Rightarrow> Inl e
      | None \<Rightarrow>
          Inr \<lparr>data = d\<lparr>attributes := None\<rparr>,
               attributes' = (case attributes d of Some a \<Rightarrow> a | None \<Rightarrow> Map.empty),
               knownDavService = re,
               type' = t\<rparr>)"

text \<open>\<^verbatim>\<open>updateMtime\<close>; \<open>now\<close> is the value of \<^verbatim>\<open>new Date()\<close>.\<close>

definition updateMtime :: "date \<Rightarrow> Node \<Rightarrow> Node" where
  "updateMtime now n =
     (if mtime (data n) \<noteq> None then n\<lparr>data := (data n)\<lparr>mtime := Some now\<rparr>\<rparr> else n)"

text \<open>
  \<^verbatim>\<open>move\<close>, statement by statement.  The result is what the call throws, if it throws,
  and the Node as it is when the call ends.  The validator gets a copy of the bag.
\<close>

definition move :: "date \<Rightarrow> string \<Rightarrow> Node \<Rightarrow> error option \<times> Node" where
  "move now destination n =
     (case validateData (type' n) ((data n)\<lparr>source := destination\<rparr>) (knownDavService n) of
        Some e \<Rightarrow> (Some e, n)
      | None \<Rightarrow>
          (let n1 = n\<lparr>data := (data n)\<lparr>source := destination\<rparr>\<rparr>;
               n2 = updateMtime now n1
           in (None, n2)))"

definition rename :: "date \<Rightarrow> string \<Rightarrow> Node \<Rightarrow> error option \<times> Node" where
  "rename now basename' n =
     (if includes' basename' ''/'' then (Some InvalidBasename, n)
      else move now (dirname (Node_source n) @ ''/'' @ basename') n)"

section \<open>The action registry\<close>

text \<open>
  A \<^verbatim>\<open>FileAction\<close> of \<^verbatim>\<open>lib/fileAction.ts\<close>: the registry reads its \<^verbatim>\<open>id\<close> only, so
  the callables and the other fields of the action are kept as one value.
\<close>

record 'f FileAction =
  FileAction_id :: string
  FileAction_fields :: 'f

datatype log_entry = Debug string | Error string | Warn string

text \<open>The part of \<^verbatim>\<open>window\<close> the registry uses, and what the logger was told.\<close>

record 'f window =
  nc_fileactions :: "'f FileAction list option"
  logger :: "log_entry list"

text \<open>\<^verbatim>\<open>registerFileAction\<close>, statement by statement; it has no \<^verbatim>\<open>throw\<close>.\<close>

definition registerFileAction :: "'f FileAction \<Rightarrow> 'f window \<Rightarrow> 'f window" where
  "registerFileAction action w =
     (let w1 = (case nc_fileactions w of
                  None \<Rightarrow> w\<lparr>nc_fileactions := Some [],
                             logger := logger w @ [Debug ''FileActions initialized'']\<rparr>
                | Some actions \<Rightarrow> w);
          actions = (case nc_fileactions w1 of Some actions \<Rightarrow> actions | None \<Rightarrow> [])
      in if find (\<lambda>search. FileAction_id search = FileAction_id action) actions \<noteq> None
         then w1\<lparr>logger := logger w1 @
                  [Error (''FileAction '' @ FileAction_id action @ '' already registered'')]\<rparr>
         else w1\<lparr>nc_fileactions := Some (actions @ [action])\<rparr>)"

definition getFileActions :: "'f window \<Rightarrow> 'f FileAction list \<times> 'f window" where
  "getFileActions w =
     (case nc_fileactions w of
        None \<Rightarrow> ([], w\<lparr>nc_fileactions := Some [],
                         logger := logger w @ [Debug ''FileActions initialized'']\<rparr>)
      | Some actions \<Rightarrow> (actions, w))"

section \<open>The new-file menu\<close>

text \<open>
  Modelled from the spec: the \<^verbatim>\<open>Entry\<close> and the class \<^verbatim>\<open>NewFileMenu\<close> of
  \<^verbatim>\<open>lib/newFileMenu.ts\<close>, which is not among the sources.  Section 4.4: an entry has a
  non-empty \<^verbatim>\<open>id\<close> and \<^verbatim>\<open>displayName\<close>, and a \<^verbatim>\<open>templateName\<close> or a \<^verbatim>\<open>handler\<close>;
  \<^verbatim>\<open>registerEntry\<close> throws \<^verbatim>\<open>Duplicate entry\<close> if the id is already present.  The fields
  carry their types, so the checks on the type of a field have no branch.  The menu is its
  ordered collection of entries.
\<close>

record ('p, 'h) Entry =
  Entry_id :: string
  displayName :: string
  templateName :: "string option"
  iconClass :: "string option"
  iconSvgInline :: "string option"
  if' :: "'p option"
  handler :: "'h option"

datatype entry_error =
    InvalidEntry              \<comment> \<open>the id or the displayName is empty\<close>
  | TemplateNameOrHandler     \<comment> \<open>\<^verbatim>\<open>At least a templateName or a handler must be provided\<close>\<close>
  | Duplicate                 \<comment> \<open>\<^verbatim>\<open>Duplicate entry\<close>\<close>

text \<open>Modelled from the spec: the checks on the fields of an entry (Section 4.4), which
  \<^verbatim>\<open>lib/newFileMenu.ts\<close>, not among the sources, makes on registration.\<close>

definition validateEntry :: "('p, 'h) Entry \<Rightarrow> entry_error option" where
  "validateEntry entry =
     (if Entry_id entry = [] \<or> displayName entry = [] then Some InvalidEntry
      else if templateName entry = None \<and> handler entry = None then Some TemplateNameOrHandler
      else None)"

text \<open>Modelled from the spec: \<^verbatim>\<open>registerEntry\<close> of \<^verbatim>\<open>lib/newFileMenu.ts\<close>, which is not
  among the sources (Section 4.4): it validates the entry, throws \<^verbatim>\<open>Duplicate entry\<close> if the
  id is already present, and adds the entry at the end otherwise.  The result is what the
  call throws, if it throws, and the entries when the call ends.\<close>

definition registerEntry ::
  "('p, 'h) Entry \<Rightarrow> ('p, 'h) Entry list \<Rightarrow> entry_error option \<times> ('p, 'h) Entry list" where
  "registerEntry entry entries =
     (case validateEntry entry of
        Some e \<Rightarrow> (Some e, entries)
      | None \<Rightarrow>
          if find (\<lambda>e. Entry_id e = Entry_id entry) entries \<noteq> None then (Some Duplicate, entries)
          else (None, entries @ [entry]))"

section \<open>Example nodes\<close>

text \<open>Bags that the repository's tests build, variations of them, and the nodes they
  give under the known pattern.\<close>

definition bag :: "string \<Rightarrow> NodeData" where
  "bag src =
     \<lparr>source = src, id' = None, mtime = None, crtime = None, mime = None, size' = None,
      permissions = None, owner = String ''emma'', root = None, attributes = None,
      status = None\<rparr>"

definition node_of :: "FileType \<Rightarrow> NodeData \<Rightarrow> Node" where
  "node_of t d =
     \<lparr>data = d, attributes' = Map.empty, knownDavService = defaultDavService, type' = t\<rparr>"

definition photos :: NodeData where
  "photos = (bag ''https://cloud.domain.com/remote.php/dav/files/emma/Photos/'')
     \<lparr>mtime := Some 1000, root := Some ''/files/emma''\<rparr>"

definition picture :: NodeData where
  "picture = (bag ''https://cloud.domain.com/remote.php/dav/files/emma/Photos/picture.jpg'')
     \<lparr>mime := Some ''image/jpeg'', permissions := Some 31\<rparr>"


definition images_emma :: NodeData where
  "images_emma = (bag ''https://domain.com/files/images/emma.jpeg'')
     \<lparr>mime := Some ''image/jpeg'', permissions := Some 31\<rparr>"



definition emma_in_emma :: NodeData where
  "emma_in_emma = (bag ''https://domain.com/remote.php/dav/files/emma/files/emma'')
     \<lparr>root := Some ''/files/emma''\<rparr>"

definition photos_two_slashes :: NodeData where
  "photos_two_slashes = bag ''https://cloud.domain.com/remote.php/dav/files/emma/Photos//''"

definition photos_id_zero :: NodeData where
  "photos_id_zero = (bag ''https://cloud.domain.com/remote.php/dav/files/emma/Photos/'')
     \<lparr>id' := Some 0\<rparr>"



definition files_host :: NodeData where
  "files_host = (bag ''https://files.example.com/remote.php/dav/files/emma/x'')
     \<lparr>root := Some ''/files''\<rparr>"

section \<open>Properties of the string functions\<close>

lemma indexOf_ge: "- 1 \<le> indexOf s sub"
  by (induction s) (auto simp: Let_def)

lemma indexOf_Nil_sub: "indexOf s [] = 0"
  by (cases s) auto

lemma indexOf_found:
  "0 \<le> indexOf s sub \<Longrightarrow> prefix sub (drop (nat (indexOf s sub)) s)"
proof (induction s)
  case Nil
  then show ?case by (auto split: if_splits)
next
  case (Cons c cs)
  show ?case
  proof (cases "prefix sub (c # cs)")
    case True
    then show ?thesis by simp
  next
    case False
    with Cons.prems have nn: "0 \<le> indexOf cs sub"
      by (auto simp: Let_def split: if_splits)
    with False have "indexOf (c # cs) sub = indexOf cs sub + 1"
      by (simp add: Let_def)
    moreover have "nat (indexOf cs sub + 1) = Suc (nat (indexOf cs sub))"
      using nn by simp
    ultimately show ?thesis using Cons.IH [OF nn] by simp
  qed
qed

lemma indexOf_least:
  "0 \<le> indexOf s sub \<Longrightarrow> j < nat (indexOf s sub) \<Longrightarrow> \<not> prefix sub (drop j s)"
proof (induction s arbitrary: j)
  case Nil
  then show ?case by (auto split: if_splits)
next
  case (Cons c cs)
  show ?case
  proof (cases "prefix sub (c # cs)")
    case True
    with Cons.prems show ?thesis by simp
  next
    case False
    with Cons.prems have nn: "0 \<le> indexOf cs sub"
      by (auto simp: Let_def split: if_splits)
    with False have eq: "nat (indexOf (c # cs) sub) = Suc (nat (indexOf cs sub))"
      by (simp add: Let_def)
    show ?thesis
    proof (cases j)
      case 0
      with False show ?thesis by simp
    next
      case (Suc k)
      with Cons.prems(2) eq have "k < nat (indexOf cs sub)" by simp
      from Cons.IH [OF nn this] Suc show ?thesis by simp
    qed
  qed
qed

lemma indexOf_none:
  "indexOf s sub < 0 \<Longrightarrow> \<not> prefix sub (drop j s)"
proof (induction s arbitrary: j)
  case Nil
  then show ?case by (auto split: if_splits)
next
  case (Cons c cs)
  then have np: "\<not> prefix sub (c # cs)" and neg: "indexOf cs sub < 0"
    by (auto simp: Let_def split: if_splits)
  show ?case
  proof (cases j)
    case 0
    with np show ?thesis by simp
  next
    case (Suc k)
    with Cons.IH [OF neg] show ?thesis by simp
  qed
qed

lemma sublist_iff_prefix_drop: "sublist sub s \<longleftrightarrow> (\<exists>j. prefix sub (drop j s))"
proof
  assume "sublist sub s"
  then obtain ps ss where "s = ps @ sub @ ss" by (auto simp: sublist_def)
  then have "prefix sub (drop (length ps) s)" by simp
  then show "\<exists>j. prefix sub (drop j s)" ..
next
  assume "\<exists>j. prefix sub (drop j s)"
  then obtain j ss where "drop j s = sub @ ss" by (auto simp: prefix_def)
  then have "s = take j s @ sub @ ss" by (metis append_take_drop_id)
  then show "sublist sub s" unfolding sublist_def by blast
qed

lemma includes_iff_sublist: "includes' s sub \<longleftrightarrow> sublist sub s"
proof
  assume "includes' s sub"
  then have "prefix sub (drop (nat (indexOf s sub)) s)"
    by (simp add: includes'_def indexOf_found)
  then show "sublist sub s" using sublist_iff_prefix_drop by blast
next
  assume "sublist sub s"
  then obtain j where "prefix sub (drop j s)" using sublist_iff_prefix_drop by blast
  then have "\<not> indexOf s sub < 0" using indexOf_none by blast
  then show "includes' s sub" by (simp add: includes'_def)
qed

lemma indexOf_first:
  assumes "\<forall>j<length pre. \<not> prefix sub (drop j (pre @ sub @ rest))"
  shows "indexOf (pre @ sub @ rest) sub = int (length pre)"
proof -
  let ?s = "pre @ sub @ rest"
  have p: "prefix sub (drop (length pre) ?s)" by simp
  then have nn: "0 \<le> indexOf ?s sub" using indexOf_none [of ?s sub "length pre"] by force
  have "\<not> length pre < nat (indexOf ?s sub)"
    using indexOf_least [OF nn, of "length pre"] p by blast
  moreover have "\<not> nat (indexOf ?s sub) < length pre"
    using assms indexOf_found [OF nn] by blast
  ultimately show ?thesis using nn by linarith
qed

lemma includes_char: "includes' b [c] \<longleftrightarrow> c \<in> set b"
  by (induction b) (auto simp: includes'_def Let_def)

lemma strip_ending_slash_ends:
  "(strip_ending_slash s \<noteq> [] \<and> last (strip_ending_slash s) = CHR ''/'') \<longleftrightarrow> suffix ''//'' s"
proof (cases s rule: rev_cases)
  case Nil
  then show ?thesis by (simp add: strip_ending_slash_def)
next
  case (snoc t c)
  show ?thesis
  proof (cases t rule: rev_cases)
    case Nil
    with snoc show ?thesis by (auto simp: strip_ending_slash_def suffix_def)
  next
    case (snoc u b)
    with \<open>s = t @ [c]\<close> have "s = (u @ [b]) @ [c]" by simp
    then show ?thesis
      by (auto simp: strip_ending_slash_def suffix_def simp del: append_assoc)
  qed
qed

section \<open>Properties of split\<close>

text \<open>The equation of the loop is used through its two cases.\<close>

declare split_loop.simps [simp del]







section \<open>Properties of the validator and the constructor\<close>


lemma strip_root_slash_nonempty: "r \<noteq> [] \<Longrightarrow> strip_root_slash r \<noteq> []"
  by (simp add: strip_root_slash_def)

lemma new_Node_Inr:
  assumes "new_Node t d custom = Inr n"
  shows "validateData t d (knownDavService n) = None"
    and "data n = d\<lparr>attributes := None\<rparr>"
    and "attributes' n = (case attributes d of Some a \<Rightarrow> a | None \<Rightarrow> Map.empty)"
    and "knownDavService n = (case custom of Some re \<Rightarrow> re | None \<Rightarrow> defaultDavService)"
    and "type' n = t"
  using assms by (auto simp: new_Node_def Let_def split: option.splits)

lemma after_root_first:
  assumes occ: "0 \<le> indexOf (Node_source n) r"
  shows "\<exists>pre rest. Node_source n = pre @ r @ rest \<and>
           (\<forall>j<length pre. \<not> prefix r (drop j (Node_source n))) \<and>
           after_root n r = (if rest = [] then ''/'' else rest)"
proof -
  let ?s = "Node_source n"
  let ?i = "nat (indexOf ?s r)"
  from indexOf_found [OF occ] obtain rest where d: "drop ?i ?s = r @ rest"
    by (auto simp: prefix_def)
  have il: "?i \<le> length ?s"
  proof (rule ccontr)
    assume "\<not> ?i \<le> length ?s"
    then have "drop ?i ?s = []" by simp
    with d have "r = []" by simp
    then have "indexOf ?s r = 0" by (simp add: indexOf_Nil_sub)
    with \<open>\<not> ?i \<le> length ?s\<close> show False by simp
  qed
  have s: "?s = take ?i ?s @ r @ rest" using d by (metis append_take_drop_id)
  have len: "length (take ?i ?s) = ?i" using il by simp
  have first: "\<forall>j<length (take ?i ?s). \<not> prefix r (drop j ?s)"
    using indexOf_least [OF occ] len by simp
  have "drop (?i + length r) ?s = rest"
    using d by (metis append_eq_conv_conj drop_drop add.commute)
  moreover have "nat (indexOf ?s r + int (length r)) = ?i + length r" using occ by simp
  ultimately have "slice ?s (indexOf ?s r + int (length r)) = rest"
    using occ by (simp add: slice_def)
  then have ar: "after_root n r = (if rest = [] then ''/'' else rest)"
    by (simp add: after_root_def Let_def)
  from s first ar have "?s = take ?i ?s @ r @ rest \<and>
           (\<forall>j<length (take ?i ?s). \<not> prefix r (drop j ?s)) \<and>
           after_root n r = (if rest = [] then ''/'' else rest)"
    by (intro conjI)
  then show ?thesis
    by (rule_tac x = "take ?i ?s" in exI, rule_tac x = rest in exI)
qed

lemma root_truthy_supplied:
  assumes "root (data n) = Some r0" and "r0 \<noteq> []"
  shows "Node_root n = Some (strip_root_slash r0)"
    and "root_truthy n = Some (strip_root_slash r0)"
  using assms by (simp_all add: Node_root_def root_truthy_def strip_root_slash_nonempty)




lemma find_id_iff:
  "(\<exists>y. find (\<lambda>x. f x = k) xs = Some y) \<longleftrightarrow> (\<exists>x\<in>set xs. f x = k)"
  "find (\<lambda>x. f x = k) xs = None \<longleftrightarrow> \<not> (\<exists>x\<in>set xs. f x = k)"
  by (induction xs) auto

section \<open>The example nodes, evaluated\<close>

lemmas url_defs = parseURL_def scrub_def c0_control_or_space_def tab_or_newline_def
  scheme_char_def is_alpha_def is_digit_def is_hex_def lower_def special_def slash_def
  authority_state_def authority_end_def parse_host_def forbidden_domain_code_point_def
  forbidden_host_code_point_def ends_in_a_number_def ipv4_number_def port_ok_def number_def
  path_start_state_def end_segment_def single_dot_def double_dot_def windows_drive_letter_def
  serialize_path_def utf8_percent_encode_def path_set_def query_set_def c0_control_set_def
  digit_val_def shorten_def upper_def
lemmas validate_defs = validateData_def url_defs mime_ok_def is_word_char_def includes'_def
  Permission_ALL_def defaultDavService_def bag_def
lemmas getter_defs = Node_source_def strip_ending_slash_def Node_isDavRessource_def
  isDavRessource_def defaultDavService_def upper_def node_of_def bag_def

lemma new_Node_bag:
  assumes "validateData t d defaultDavService = None" and "attributes d = None"
  shows "new_Node t d None = Inr (node_of t d)"
proof -
  from assms(2) have "d\<lparr>attributes := None\<rparr> = d" by simp
  with assms show ?thesis by (simp add: new_Node_def node_of_def)
qed

lemma valid_photos: "validateData Folder photos defaultDavService = None"
  by (simp add: photos_def validate_defs)
lemma valid_picture: "validateData File picture defaultDavService = None"
  by (simp add: picture_def validate_defs)
lemma valid_images_emma: "validateData File images_emma defaultDavService = None"
  by (simp add: images_emma_def validate_defs)
lemma valid_emma_in_emma: "validateData Folder emma_in_emma defaultDavService = None"
  by (simp add: emma_in_emma_def validate_defs)
lemma valid_photos_two_slashes: "validateData Folder photos_two_slashes defaultDavService = None"
  by (simp add: photos_two_slashes_def validate_defs)
lemma valid_photos_id_zero: "validateData Folder photos_id_zero defaultDavService = None"
  by (simp add: photos_id_zero_def validate_defs)
lemma valid_files_host: "validateData Folder files_host defaultDavService = None"
  by (simp add: files_host_def validate_defs)

text \<open>
  The sources of the test \<^verbatim>\<open>Invalid source\<close>; a source without slashes behind its
  scheme, which the platform parses; and a source with a double-dot segment, which the
  platform removes from the path.
\<close>

lemma parseURL_examples:
  "parseURL ''cloud.domain.com/remote.php/dav/Photos'' = None"
  "parseURL ''/remote.php/dav/files/emma/Photos/picture.jpg'' = None"
  "parseURL ''ftp://remote.php/dav/files/emma/Photos/picture.jpg''
     = Some \<lparr>protocol = ''ftp:'', pathname = ''/dav/files/emma/Photos/picture.jpg''\<rparr>"
  "parseURL ''http:h/'' = Some \<lparr>protocol = ''http:'', pathname = ''/''\<rparr>"
  "parseURL ''https://domain.com/files/../images/emma.jpeg''
     = Some \<lparr>protocol = ''https:'', pathname = ''/images/emma.jpeg''\<rparr>"
  by (simp_all add: url_defs)

lemma invalid_sources:
  "validateData File (picture\<lparr>source := ''cloud.domain.com/remote.php/dav/Photos''\<rparr>)
     defaultDavService = Some InvalidSourceFormat"
  "validateData File (picture\<lparr>source := ''ftp://remote.php/dav/files/emma/Photos/picture.jpg''\<rparr>)
     defaultDavService = Some OnlyHttpSupported"
  by (simp_all add: picture_def validate_defs)

lemma dav_photos: "Node_isDavRessource (node_of Folder photos)"
  by (simp add: photos_def getter_defs)
lemma dav_picture': "Node_isDavRessource (node_of File picture)"
  by (simp add: picture_def getter_defs)
lemma not_dav_images_emma: "\<not> Node_isDavRessource (node_of File images_emma)"
  by (simp add: images_emma_def getter_defs)

text \<open>The test \<^verbatim>\<open>Custom dav service\<close>, with the pattern \<^verbatim>\<open>/test\.php\/dav/\<close>.\<close>

lemma custom_dav_service:
  "isDavRessource ''https://cloud.domain.com/test.php/dav/files/emma/Photos/picture.jpg''
     (lit ''test.php/dav'') \<and>
   \<not> isDavRessource ''https://cloud.domain.com/remote.php/dav/files/emma/Photos/picture.jpg''
     (lit ''test.php/dav'')"
  by (simp add: isDavRessource_def lit_def)

lemmas path_defs = Node_root_def root_truthy_def Node_path_def Node_dirname_def after_root_def
  slice_def dirname_def strip_root_slash_def line_terminator_def getter_defs

lemma new_photos: "new_Node Folder photos None = Inr (node_of Folder photos)"
  by (rule new_Node_bag [OF valid_photos]) (simp add: photos_def bag_def)
lemma new_picture: "new_Node File picture None = Inr (node_of File picture)"
  by (rule new_Node_bag [OF valid_picture]) (simp add: picture_def bag_def)
lemma new_images_emma: "new_Node File images_emma None = Inr (node_of File images_emma)"
  by (rule new_Node_bag [OF valid_images_emma]) (simp add: images_emma_def bag_def)
lemma new_emma_in_emma: "new_Node Folder emma_in_emma None = Inr (node_of Folder emma_in_emma)"
  by (rule new_Node_bag [OF valid_emma_in_emma]) (simp add: emma_in_emma_def bag_def)
lemma new_photos_two_slashes:
  "new_Node Folder photos_two_slashes None = Inr (node_of Folder photos_two_slashes)"
  by (rule new_Node_bag [OF valid_photos_two_slashes]) (simp add: photos_two_slashes_def bag_def)
lemma new_photos_id_zero: "new_Node Folder photos_id_zero None = Inr (node_of Folder photos_id_zero)"
  by (rule new_Node_bag [OF valid_photos_id_zero]) (simp add: photos_id_zero_def bag_def)
lemma new_files_host: "new_Node Folder files_host None = Inr (node_of Folder files_host)"
  by (rule new_Node_bag [OF valid_files_host]) (simp add: files_host_def bag_def)

lemma photos_moved_away:
  "validateData Folder (photos\<lparr>source := ''https://cloud.domain.com/Photos''\<rparr>) defaultDavService
     = Some RootNotPartOfSource"
  by (simp add: photos_def validate_defs)

lemma photos_moved_to_pictures:
  "validateData Folder
     (photos\<lparr>source := ''https://cloud.domain.com/remote.php/dav/files/emma/Pictures/''\<rparr>)
     defaultDavService = None"
  by (simp add: photos_def validate_defs)

lemma photos_dirname:
  "dirname (Node_source (node_of Folder photos))
     = ''https://cloud.domain.com/remote.php/dav/files/emma''"
  by (simp add: photos_def path_defs)

text \<open>The test \<^verbatim>\<open>Non dav ressource with undefined root\<close>: without a root, the
  getters read the path of the URL.\<close>

lemma images_emma_path:
  "Node_root (node_of File images_emma) = None"
  "Node_dirname (node_of File images_emma) = Inr ''/files/images''"
  "Node_path (node_of File images_emma) = Inr ''/files/images/emma.jpeg''"
proof -
  have s: "Node_source (node_of File images_emma) = ''https://domain.com/files/images/emma.jpeg''"
    by (simp add: images_emma_def getter_defs)
  have u: "parseURL ''https://domain.com/files/images/emma.jpeg''
      = Some \<lparr>protocol = ''https:'', pathname = ''/files/images/emma.jpeg''\<rparr>"
    by (simp add: url_defs)
  show r: "Node_root (node_of File images_emma) = None"
    using not_dav_images_emma
    by (simp add: Node_root_def root_from_service_def images_emma_def node_of_def bag_def)
  then have t: "root_truthy (node_of File images_emma) = None"
    by (simp add: root_truthy_def)
  from t s u show d: "Node_dirname (node_of File images_emma) = Inr ''/files/images''"
    by (simp add: Node_dirname_def dirname_def)
  from t d s show "Node_path (node_of File images_emma) = Inr ''/files/images/emma.jpeg''"
    by (simp add: Node_path_def Node_basename_def basename_def)
qed

lemma emma_in_emma_index:
  "indexOf ''https://domain.com/remote.php/dav/files/emma/files/emma'' ''/files/emma'' = 33"
  by simp

section \<open>Mutation: move and rename\<close>

text \<open>
  Claim C1.  For every Node and every destination string, \<^verbatim>\<open>move\<close> throws exactly what
  the validation of the data bag with \<^verbatim>\<open>source\<close> replaced by the destination fails with.
  If it throws, the Node is as it was before the call, in every field.  If it does not
  throw, the stored source is the destination, the modification time is the current time
  where there was one, and nothing else has changed; the getter \<^verbatim>\<open>source\<close> then returns
  the destination, stripped of an ending slash as on every read.
\<close>

theorem move_atomic:
  "fst (move now destination n) =
     validateData (type' n) ((data n)\<lparr>source := destination\<rparr>) (knownDavService n) \<and>
   (fst (move now destination n) \<noteq> None \<longrightarrow> snd (move now destination n) = n) \<and>
   (fst (move now destination n) = None \<longrightarrow>
      snd (move now destination n) =
        n\<lparr>data := (data n)\<lparr>source := destination,
                              mtime := (if mtime (data n) = None then None else Some now)\<rparr>\<rparr> \<and>
      source (data (snd (move now destination n))) = destination \<and>
      Node_source (snd (move now destination n)) = strip_ending_slash destination)"
  by (cases "validateData (type' n) ((data n)\<lparr>source := destination\<rparr>) (knownDavService n)")
     (simp_all add: move_def updateMtime_def Node_source_def)

text \<open>
  The folder \<^verbatim>\<open>Photos\<close> of emma, rooted at \<^verbatim>\<open>/files/emma\<close>: a move out of the root throws
  \<^verbatim>\<open>Root must be part of the source\<close> and leaves the node as it is; a move to
  \<^verbatim>\<open>Pictures/\<close> succeeds, stores the destination and refreshes the modification time.
\<close>

theorem move_atomic_witness:
  "fst (move 2000 ''https://cloud.domain.com/Photos'' (node_of Folder photos))
     = Some RootNotPartOfSource \<and>
   snd (move 2000 ''https://cloud.domain.com/Photos'' (node_of Folder photos))
     = node_of Folder photos \<and>
   fst (move 2000 ''https://cloud.domain.com/remote.php/dav/files/emma/Pictures/''
          (node_of Folder photos)) = None \<and>
   snd (move 2000 ''https://cloud.domain.com/remote.php/dav/files/emma/Pictures/''
          (node_of Folder photos))
     = node_of Folder
         (photos\<lparr>source := ''https://cloud.domain.com/remote.php/dav/files/emma/Pictures/'',
                  mtime := Some 2000\<rparr>) \<and>
   Node_source (snd (move 2000 ''https://cloud.domain.com/remote.php/dav/files/emma/Pictures/''
          (node_of Folder photos)))
     = ''https://cloud.domain.com/remote.php/dav/files/emma/Pictures''"
proof -
  have m: "mtime photos = Some 1000" by (simp add: photos_def bag_def)
  from move_atomic [of 2000 "''https://cloud.domain.com/Photos''" "node_of Folder photos"]
    photos_moved_away
  have a: "fst (move 2000 ''https://cloud.domain.com/Photos'' (node_of Folder photos))
             = Some RootNotPartOfSource \<and>
           snd (move 2000 ''https://cloud.domain.com/Photos'' (node_of Folder photos))
             = node_of Folder photos"
    by (simp add: node_of_def)
  from move_atomic [of 2000 "''https://cloud.domain.com/remote.php/dav/files/emma/Pictures/''"
      "node_of Folder photos"] photos_moved_to_pictures m
  have b: "fst (move 2000 ''https://cloud.domain.com/remote.php/dav/files/emma/Pictures/''
          (node_of Folder photos)) = None \<and>
   snd (move 2000 ''https://cloud.domain.com/remote.php/dav/files/emma/Pictures/''
          (node_of Folder photos))
     = node_of Folder
         (photos\<lparr>source := ''https://cloud.domain.com/remote.php/dav/files/emma/Pictures/'',
                  mtime := Some 2000\<rparr>) \<and>
   Node_source (snd (move 2000 ''https://cloud.domain.com/remote.php/dav/files/emma/Pictures/''
          (node_of Folder photos)))
     = ''https://cloud.domain.com/remote.php/dav/files/emma/Pictures''"
    by (simp add: node_of_def Node_source_def strip_ending_slash_def)
  from a b show ?thesis by (elim conjE) (intro conjI; assumption)
qed

text \<open>
  Claim C7.  For every Node and every new basename that contains the character \<^verbatim>\<open>/\<close>,
  \<^verbatim>\<open>rename\<close> throws \<^verbatim>\<open>Invalid basename\<close> and leaves the Node, hence its source, as it
  was.  For every basename without \<^verbatim>\<open>/\<close>, \<^verbatim>\<open>rename\<close> is \<^verbatim>\<open>move\<close> to the directory of
  the Node's source (\<^verbatim>\<open>dirname\<close> of the path module on the source), a slash and the
  basename.
\<close>

theorem rename_basename:
  "(CHR ''/'' \<in> set b \<longrightarrow> rename now b n = (Some InvalidBasename, n)) \<and>
   (CHR ''/'' \<notin> set b \<longrightarrow>
      rename now b n = move now (dirname (Node_source n) @ ''/'' @ b) n)"
  by (simp add: rename_def includes_char)

text \<open>The test \<^verbatim>\<open>Invalid rename\<close>, and a rename of the same folder to \<^verbatim>\<open>Pictures\<close>.\<close>

theorem rename_basename_witness:
  "rename 2000 ''new/folder'' (node_of Folder photos)
     = (Some InvalidBasename, node_of Folder photos) \<and>
   rename 2000 ''Pictures'' (node_of Folder photos)
     = move 2000 ''https://cloud.domain.com/remote.php/dav/files/emma/Pictures''
         (node_of Folder photos)"
  using rename_basename [of "''new/folder''" 2000 "node_of Folder photos"]
    rename_basename [of "''Pictures''" 2000 "node_of Folder photos"] photos_dirname
  by simp

section \<open>Owner and permissions\<close>

text \<open>
  Claim C8.  For every successfully constructed Node: if the getter \<^verbatim>\<open>owner\<close> is null and
  the Node is not a DAV resource, the getter \<^verbatim>\<open>permissions\<close> returns \<^verbatim>\<open>READ\<close> whatever
  permissions were supplied; otherwise it returns the supplied permissions, or \<^verbatim>\<open>NONE\<close>
  when none were supplied.  The getter \<^verbatim>\<open>owner\<close> returns null for a Node that is not a
  DAV resource, whatever owner was supplied, and the supplied owner otherwise.  So every
  Node that is not a DAV resource has the permissions \<^verbatim>\<open>READ\<close>.  Whether the Node is a DAV
  resource is whether its source, read without the ending slash, matches the custom
  pattern or, without one, the known pattern.
\<close>

theorem permissions_and_owner:
  assumes "new_Node t d custom = Inr n"
  shows "Node_permissions n =
           (if Node_owner n = Null \<and> \<not> Node_isDavRessource n then Permission_READ
            else (case permissions d of Some p \<Rightarrow> p | None \<Rightarrow> Permission_NONE)) \<and>
         Node_owner n = (if Node_isDavRessource n then owner d else Null) \<and>
         (\<not> Node_isDavRessource n \<longrightarrow> Node_permissions n = Permission_READ) \<and>
         (Node_isDavRessource n \<longleftrightarrow>
            isDavRessource (strip_ending_slash (source d))
              (case custom of Some re \<Rightarrow> re | None \<Rightarrow> defaultDavService))"
  using new_Node_Inr(2,4) [OF assms]
  by (simp add: Node_permissions_def Node_owner_def Node_isDavRessource_def Node_source_def)

text \<open>
  A file outside the DAV service, supplied with the owner emma and all permissions, has
  no owner and may only be read; the same file under the DAV service keeps both.
\<close>

theorem permissions_and_owner_witness:
  "new_Node File images_emma None = Inr (node_of File images_emma) \<and>
   permissions images_emma = Some 31 \<and> owner images_emma = String ''emma'' \<and>
   Node_permissions (node_of File images_emma) = 1 \<and>
   Node_owner (node_of File images_emma) = Null \<and>
   new_Node File picture None = Inr (node_of File picture) \<and>
   Node_permissions (node_of File picture) = 31 \<and>
   Node_owner (node_of File picture) = String ''emma''"
proof -
  from permissions_and_owner [OF new_images_emma] not_dav_images_emma
  have "Node_permissions (node_of File images_emma) = 1 \<and>
        Node_owner (node_of File images_emma) = Null"
    by (simp add: Permission_READ_def)
  moreover from permissions_and_owner [OF new_picture] dav_picture'
  have "Node_permissions (node_of File picture) = 31 \<and>
        Node_owner (node_of File picture) = String ''emma''"
    by (simp add: picture_def bag_def)
  moreover have "permissions images_emma = Some 31 \<and> owner images_emma = String ''emma''"
    by (simp add: images_emma_def bag_def)
  ultimately show ?thesis using new_images_emma new_picture by simp
qed

section \<open>The registries\<close>

text \<open>
  Claim C9.  Registering a FileAction whose id is the id of an action already registered
  leaves the registry as it is: the first registration is kept and the second is rejected
  (the function logs an error and has no \<^verbatim>\<open>throw\<close>).  So whatever the registry was, two
  registrations under one id leave it as the first one made it, and a registration under
  a new id adds the action at the end.  Registering a template-menu Entry whose id is the
  id of an entry already registered throws and leaves the entries as they are; the error
  is \<^verbatim>\<open>Duplicate entry\<close> when the fields of the entry are valid.
\<close>

theorem duplicate_registration:
  "((\<exists>a\<in>set actions. FileAction_id a = FileAction_id action) \<longrightarrow>
      nc_fileactions w = Some actions \<longrightarrow>
      nc_fileactions (registerFileAction action w) = Some actions) \<and>
   (FileAction_id action' = FileAction_id action \<longrightarrow>
      nc_fileactions (registerFileAction action' (registerFileAction action w)) =
      nc_fileactions (registerFileAction action w)) \<and>
   (\<not> (\<exists>a\<in>set actions. FileAction_id a = FileAction_id action) \<longrightarrow>
      nc_fileactions w = Some actions \<longrightarrow>
      nc_fileactions (registerFileAction action w) = Some (actions @ [action])) \<and>
   (nc_fileactions w = None \<longrightarrow> nc_fileactions (registerFileAction action w) = Some [action]) \<and>
   ((\<exists>e\<in>set entries. Entry_id e = Entry_id entry) \<longrightarrow>
      fst (registerEntry entry entries) \<noteq> None \<and>
      snd (registerEntry entry entries) = entries \<and>
      (validateEntry entry = None \<longrightarrow> fst (registerEntry entry entries) = Some Duplicate))"
proof (intro conjI impI)
  assume "\<exists>a\<in>set actions. FileAction_id a = FileAction_id action" and "nc_fileactions w = Some actions"
  then show "nc_fileactions (registerFileAction action w) = Some actions"
    by (auto simp: registerFileAction_def find_id_iff)
next
  assume same: "FileAction_id action' = FileAction_id action"
  have "\<exists>as. nc_fileactions (registerFileAction action w) = Some as \<and>
                 (\<exists>a\<in>set as. FileAction_id a = FileAction_id action)"
    by (cases "nc_fileactions w")
       (auto simp: registerFileAction_def Let_def find_id_iff)
  then obtain as where as: "nc_fileactions (registerFileAction action w) = Some as"
    "\<exists>a\<in>set as. FileAction_id a = FileAction_id action" by blast
  with same have "find (\<lambda>search. FileAction_id search = FileAction_id action') as \<noteq> None"
    by (auto simp: find_id_iff)
  with as show "nc_fileactions (registerFileAction action' (registerFileAction action w)) =
      nc_fileactions (registerFileAction action w)"
    by (simp add: registerFileAction_def [of action'] Let_def)
next
  assume "\<not> (\<exists>a\<in>set actions. FileAction_id a = FileAction_id action)"
    and "nc_fileactions w = Some actions"
  then show "nc_fileactions (registerFileAction action w) = Some (actions @ [action])"
    by (auto simp: registerFileAction_def find_id_iff)
next
  assume "nc_fileactions w = None"
  then show "nc_fileactions (registerFileAction action w) = Some [action]"
    by (simp add: registerFileAction_def)
next
  assume d: "\<exists>e\<in>set entries. Entry_id e = Entry_id entry"
  then have f: "find (\<lambda>e. Entry_id e = Entry_id entry) entries \<noteq> None"
    by (auto simp: find_id_iff)
  then show "fst (registerEntry entry entries) \<noteq> None"
    by (simp add: registerEntry_def split: option.split)
  from f show "snd (registerEntry entry entries) = entries"
    by (simp add: registerEntry_def split: option.split)
  assume "validateEntry entry = None"
  with f show "fst (registerEntry entry entries) = Some Duplicate"
    by (simp add: registerEntry_def)
qed

text \<open>
  Two actions with the id \<^verbatim>\<open>view\<close>, registered in a fresh window, leave the first one
  registered; the entry of the test \<^verbatim>\<open>Adding duplicate Entry\<close>, registered again, throws
  \<^verbatim>\<open>Duplicate entry\<close> and leaves the first entry.
\<close>

theorem duplicate_registration_witness:
  "nc_fileactions
     (registerFileAction \<lparr>FileAction_id = ''view'', FileAction_fields = (2::nat)\<rparr>
        (registerFileAction \<lparr>FileAction_id = ''view'', FileAction_fields = 1\<rparr>
           \<lparr>nc_fileactions = None, logger = []\<rparr>))
     = Some [\<lparr>FileAction_id = ''view'', FileAction_fields = 1\<rparr>] \<and>
   registerEntry
     \<lparr>Entry_id = ''empty-file'', displayName = ''Create empty file'',
      templateName = Some ''New file.txt'', iconClass = Some ''icon-filetype-text'',
      iconSvgInline = None, if' = (None :: unit option), handler = Some (2::nat)\<rparr>
     [\<lparr>Entry_id = ''empty-file'', displayName = ''Create empty file'',
       templateName = Some ''New file.txt'', iconClass = Some ''icon-filetype-text'',
       iconSvgInline = None, if' = None, handler = Some 1\<rparr>]
     = (Some Duplicate,
        [\<lparr>Entry_id = ''empty-file'', displayName = ''Create empty file'',
          templateName = Some ''New file.txt'', iconClass = Some ''icon-filetype-text'',
          iconSvgInline = None, if' = None, handler = Some 1\<rparr>])"
proof -
  let ?a1 = "\<lparr>FileAction_id = ''view'', FileAction_fields = (1::nat)\<rparr>"
  let ?a2 = "\<lparr>FileAction_id = ''view'', FileAction_fields = (2::nat)\<rparr>"
  let ?w = "\<lparr>nc_fileactions = (None :: nat FileAction list option), logger = []\<rparr>"
  let ?e1 = "\<lparr>Entry_id = ''empty-file'', displayName = ''Create empty file'',
       templateName = Some ''New file.txt'', iconClass = Some ''icon-filetype-text'',
       iconSvgInline = None, if' = (None :: unit option), handler = Some (1::nat)\<rparr>"
  let ?e2 = "\<lparr>Entry_id = ''empty-file'', displayName = ''Create empty file'',
       templateName = Some ''New file.txt'', iconClass = Some ''icon-filetype-text'',
       iconSvgInline = None, if' = (None :: unit option), handler = Some (2::nat)\<rparr>"
  have ve: "validateEntry ?e2 = None" by (simp add: validateEntry_def)
  from duplicate_registration [of "[]" ?a1 ?w ?a2 "[?e1]" ?e2] ve
  have "nc_fileactions (registerFileAction ?a2 (registerFileAction ?a1 ?w)) = Some [?a1] \<and>
        fst (registerEntry ?e2 [?e1]) = Some Duplicate \<and> snd (registerEntry ?e2 [?e1]) = [?e1]"
    by simp
  then show ?thesis by (simp add: prod_eq_iff)
qed

section \<open>Root-relative paths\<close>

text \<open>
  Claim C10.  For every Node whose root was supplied, wherever else the root (as the getter
  \<^verbatim>\<open>root\<close> returns it) occurs in the source: when the source is \<open>pre\<close>, the root and
  \<open>rest\<close>, and the root occurs at no index inside \<open>pre\<close>, then \<^verbatim>\<open>indexOf\<close> finds
  the root behind \<open>pre\<close>, the getter \<^verbatim>\<open>path\<close> returns \<open>rest\<close> and the getter
  \<^verbatim>\<open>dirname\<close> its parent directory (both read \<^verbatim>\<open>/\<close> for an empty \<open>rest\<close>).  Both
  slice the source behind the first occurrence; what \<open>rest\<close> holds, later occurrences
  of the root included, does not matter.
\<close>

theorem first_occurrence_of_root:
  assumes supplied: "root (data n) = Some r0" "r0 \<noteq> []"
    and src: "Node_source n = pre @ strip_root_slash r0 @ rest"
    and first: "\<forall>j<length pre. \<not> prefix (strip_root_slash r0) (drop j (Node_source n))"
  shows "Node_root n = Some (strip_root_slash r0) \<and>
         indexOf (Node_source n) (strip_root_slash r0) = int (length pre) \<and>
         Node_path n = Inr (if rest = [] then ''/'' else rest) \<and>
         Node_dirname n = Inr (dirname (if rest = [] then ''/'' else rest))"
proof -
  let ?r = "strip_root_slash r0"
  from first src have i: "indexOf (Node_source n) ?r = int (length pre)"
    using indexOf_first [of pre ?r rest] by simp
  then have "slice (Node_source n) (indexOf (Node_source n) ?r + int (length ?r)) = rest"
    using src by (simp add: slice_def nat_add_distrib)
  then have ar: "after_root n ?r = (if rest = [] then ''/'' else rest)"
    by (simp add: after_root_def Let_def)
  from root_truthy_supplied [OF supplied] ar i show ?thesis
    by (simp add: Node_path_def Node_dirname_def)
qed

text \<open>
  The test \<^verbatim>\<open>Source contains a similar root path\<close>: the root \<^verbatim>\<open>/files/emma\<close> occurs
  twice in the source, and both getters read behind the first occurrence.
\<close>

theorem first_occurrence_of_root_witness:
  "root (data (node_of Folder emma_in_emma)) = Some ''/files/emma'' \<and>
   Node_source (node_of Folder emma_in_emma)
     = ''https://domain.com/remote.php/dav'' @ ''/files/emma'' @ ''/files/emma'' \<and>
   Node_path (node_of Folder emma_in_emma) = Inr ''/files/emma'' \<and>
   Node_dirname (node_of Folder emma_in_emma) = Inr ''/files''"
proof -
  let ?n = "node_of Folder emma_in_emma"
  have r: "root (data ?n) = Some ''/files/emma''" "''/files/emma'' \<noteq> ''''"
    by (simp_all add: emma_in_emma_def node_of_def bag_def)
  have st: "strip_root_slash ''/files/emma'' = ''/files/emma''"
    by (simp add: strip_root_slash_def)
  have s: "Node_source ?n
     = ''https://domain.com/remote.php/dav'' @ strip_root_slash ''/files/emma'' @ ''/files/emma''"
    by (simp add: st emma_in_emma_def getter_defs)
  have first: "\<forall>j<length ''https://domain.com/remote.php/dav''.
      \<not> prefix (strip_root_slash ''/files/emma'') (drop j (Node_source ?n))"
  proof (intro allI impI)
    fix j assume "j < length ''https://domain.com/remote.php/dav''"
    then have "j < nat (indexOf ''https://domain.com/remote.php/dav/files/emma/files/emma'' ''/files/emma'')"
      unfolding emma_in_emma_index by simp
    moreover have "0 \<le> indexOf ''https://domain.com/remote.php/dav/files/emma/files/emma'' ''/files/emma''"
      unfolding emma_in_emma_index by simp
    ultimately have "\<not> prefix ''/files/emma''
        (drop j ''https://domain.com/remote.php/dav/files/emma/files/emma'')"
      by (rule indexOf_least [rotated])
    then show "\<not> prefix (strip_root_slash ''/files/emma'') (drop j (Node_source ?n))"
      by (simp add: st s)
  qed
  from first_occurrence_of_root [OF r s first]
  have "Node_path ?n = Inr ''/files/emma'' \<and> Node_dirname ?n = Inr ''/files''"
    by (simp add: dirname_def)
  with r(1) s st show ?thesis by simp
qed




text \<open>
  Why the root has to occur first in the path of the URL: in a folder of the host
  \<^verbatim>\<open>files.example.com\<close> with the root \<^verbatim>\<open>/files\<close>, \<^verbatim>\<open>indexOf\<close> finds the root in the
  host, and the path reads from there.
\<close>

lemma root_in_the_host:
  "new_Node Folder files_host None = Inr (node_of Folder files_host) \<and>
   Node_root (node_of Folder files_host) = Some ''/files'' \<and>
   Node_path (node_of Folder files_host) = Inr ''.example.com/remote.php/dav/files/emma/x''"
proof -
  have "Node_root (node_of Folder files_host) = Some ''/files''"
    by (simp add: files_host_def path_defs)
  moreover have "Node_path (node_of Folder files_host)
      = Inr ''.example.com/remote.php/dav/files/emma/x''"
    by (simp add: files_host_def path_defs)
  ultimately show ?thesis using new_files_host by (intro conjI)
qed

section \<open>The root\<close>




section \<open>The file id and the source\<close>

text \<open>
  Claim C5, at the id 0.  The claim gives every Node with a supplied id that id as its
  \<^verbatim>\<open>fileid\<close>, the id 0 included.  The getter reads \<^verbatim>\<open>this._data?.id || this.attributes?.fileid\<close>,
  and 0 is falsy: a folder constructed with the id 0 has the fileid \<^verbatim>\<open>undefined\<close>, and
  with the attribute \<^verbatim>\<open>fileid\<close> 1234 beside it, the fileid 1234.
\<close>

theorem fileid_of_id_zero:
  "new_Node Folder photos_id_zero None = Inr (node_of Folder photos_id_zero) \<and>
   id' photos_id_zero = Some 0 \<and>
   Node_fileid (node_of Folder photos_id_zero) = Undefined \<and>
   new_Node Folder (photos_id_zero\<lparr>attributes := Some [''fileid'' \<mapsto> Number 1234]\<rparr>) None
     = Inr ((node_of Folder photos_id_zero)\<lparr>attributes' := [''fileid'' \<mapsto> Number 1234]\<rparr>) \<and>
   Node_fileid ((node_of Folder photos_id_zero)\<lparr>attributes' := [''fileid'' \<mapsto> Number 1234]\<rparr>)
     = Number 1234"
proof -
  have "id' photos_id_zero = Some 0" by (simp add: photos_id_zero_def bag_def)
  moreover have "Node_fileid (node_of Folder photos_id_zero) = Undefined"
    by (simp add: Node_fileid_def photos_id_zero_def node_of_def bag_def)
  moreover have "validateData Folder (photos_id_zero\<lparr>attributes := Some [''fileid'' \<mapsto> Number 1234]\<rparr>)
      defaultDavService = None"
    by (simp add: photos_id_zero_def validate_defs)
  then have "new_Node Folder (photos_id_zero\<lparr>attributes := Some [''fileid'' \<mapsto> Number 1234]\<rparr>) None
     = Inr ((node_of Folder photos_id_zero)\<lparr>attributes' := [''fileid'' \<mapsto> Number 1234]\<rparr>)"
    by (simp add: new_Node_def node_of_def) (simp add: photos_id_zero_def bag_def)
  moreover have "Node_fileid ((node_of Folder photos_id_zero)\<lparr>attributes' := [''fileid'' \<mapsto> Number 1234]\<rparr>)
     = Number 1234"
    by (simp add: Node_fileid_def photos_id_zero_def node_of_def bag_def)
  ultimately show ?thesis using new_photos_id_zero by (intro conjI)
qed

text \<open>
  What the getter \<^verbatim>\<open>fileid\<close> returns for every successfully constructed Node: a supplied id
  other than 0; else the attribute \<^verbatim>\<open>fileid\<close>; else \<^verbatim>\<open>undefined\<close>.
\<close>

lemma fileid_getter:
  assumes "new_Node t d custom = Inr n"
  shows "Node_fileid n =
    (case id' d of
       Some i \<Rightarrow> if i \<noteq> 0 then Number i
                 else (case attributes d of
                         Some a \<Rightarrow> (case a ''fileid'' of Some v \<Rightarrow> v | None \<Rightarrow> Undefined)
                       | None \<Rightarrow> Undefined)
     | None \<Rightarrow> (case attributes d of
                   Some a \<Rightarrow> (case a ''fileid'' of Some v \<Rightarrow> v | None \<Rightarrow> Undefined)
                 | None \<Rightarrow> Undefined))"
  using new_Node_Inr(2,3) [OF assms]
  by (simp add: Node_fileid_def Let_def split: option.split)

text \<open>
  Claim C3, at a source that ends with two slashes.  The claim lets the getter \<^verbatim>\<open>source\<close>
  never return a string that ends with a slash.  The getter strips one: the folder
  constructed from a source that ends with \<^verbatim>\<open>//\<close> has a source that ends with \<^verbatim>\<open>/\<close>.
\<close>

theorem source_of_two_slashes:
  "new_Node Folder photos_two_slashes None = Inr (node_of Folder photos_two_slashes) \<and>
   source photos_two_slashes = ''https://cloud.domain.com/remote.php/dav/files/emma/Photos//'' \<and>
   Node_source (node_of Folder photos_two_slashes)
     = ''https://cloud.domain.com/remote.php/dav/files/emma/Photos/''"
proof -
  have "source photos_two_slashes = ''https://cloud.domain.com/remote.php/dav/files/emma/Photos//''"
    by (simp add: photos_two_slashes_def bag_def)
  moreover have "Node_source (node_of Folder photos_two_slashes)
     = ''https://cloud.domain.com/remote.php/dav/files/emma/Photos/''"
    by (simp add: photos_two_slashes_def getter_defs)
  ultimately show ?thesis using new_photos_two_slashes by (intro conjI)
qed

text \<open>
  What the getter \<^verbatim>\<open>source\<close> returns for every successfully constructed Node: the supplied
  source without one ending slash.  It ends with a slash exactly when the supplied source
  ends with two.
\<close>

lemma source_getter:
  assumes "new_Node t d custom = Inr n"
  shows "Node_source n = strip_ending_slash (source d)"
    and "(Node_source n \<noteq> [] \<and> last (Node_source n) = CHR ''/'') \<longleftrightarrow> suffix ''//'' (source d)"
  using new_Node_Inr(2) [OF assms] strip_ending_slash_ends [of "source d"]
  by (simp_all add: Node_source_def)

end
